theory Spec2Isabelle
  imports Main "HOL-Library.Word"
begin

section \<open>Layer compression detection and media types (cache/blobs/compression.go)\<close>

subsection \<open>Data model\<close>

text \<open>
  \<^verbatim>\<open>type CompressionType int\<close> with its three named constants
  \<^verbatim>\<open>Uncompressed\<close> (0), \<^verbatim>\<open>Gzip\<close> (1) and \<^verbatim>\<open>UnknownCompression\<close> (-1).
\<close>

datatype CompressionType = Uncompressed | Gzip | UnknownCompression

definition DefaultCompression :: CompressionType where
  "DefaultCompression = Gzip"

fun String :: "CompressionType \<Rightarrow> string" where
  "String Uncompressed = ''uncompressed''"
| "String Gzip = ''gzip''"
| "String UnknownCompression = ''unknown''"

type_synonym byte = "8 word"

text \<open>\<^verbatim>\<open>digest.Digest\<close> is a Go string type.\<close>

type_synonym digest = string

text \<open>
  The four media type constants of the imported packages
  (\<^verbatim>\<open>ocispec\<close> is image-spec/specs-go/v1, \<^verbatim>\<open>images\<close> is containerd/images).
\<close>

definition MediaTypeImageLayer :: string where
  "MediaTypeImageLayer = ''application/vnd.oci.image.layer.v1.tar''"

definition MediaTypeImageLayerGzip :: string where
  "MediaTypeImageLayerGzip = ''application/vnd.oci.image.layer.v1.tar+gzip''"

definition MediaTypeDockerSchema2Layer :: string where
  "MediaTypeDockerSchema2Layer = ''application/vnd.docker.image.rootfs.diff.tar''"

definition MediaTypeDockerSchema2LayerGzip :: string where
  "MediaTypeDockerSchema2LayerGzip = ''application/vnd.docker.image.rootfs.diff.tar.gzip''"

definition canonicalMediaTypes :: "string list" where
  "canonicalMediaTypes =
     [MediaTypeImageLayer, MediaTypeImageLayerGzip,
      MediaTypeDockerSchema2Layer, MediaTypeDockerSchema2LayerGzip]"

subsection \<open>Errors\<close>

text \<open>
  Error values handed over by the collaborators (the content store and the reader):
  \<^verbatim>\<open>io.EOF\<close>, or any other error, told apart by its message.
\<close>

datatype ioerror = EOF | IOFailure string

text \<open>
  The errors \<^verbatim>\<open>DetectLayerMediaType\<close> can return: an error of a collaborator passed on
  as it is, or the error it builds itself with \<^verbatim>\<open>errors.Errorf\<close> (with its message).
\<close>

datatype error = Propagated ioerror | DetectionFailure string

subsection \<open>The reader and the content store\<close>

text \<open>
  What the one \<^verbatim>\<open>Read\<close> call of \<^verbatim>\<open>detectCompressionType\<close> gets from an \<^verbatim>\<open>io.Reader\<close>: the bytes
  the reader has for this call and the error it reports with them. \<^verbatim>\<open>Read\<close> copies at most
  as many bytes as the buffer holds and leaves the rest of the (zeroed) buffer alone.
\<close>

datatype Reader = Reader (delivered: "byte list") (readErr: "ioerror option")

definition Read :: "Reader \<Rightarrow> nat \<Rightarrow> byte list \<times> nat \<times> ioerror option" where
  "Read cr cap =
     (take cap (delivered cr) @ replicate (cap - length (delivered cr)) 0,
      min cap (length (delivered cr)),
      readErr cr)"

text \<open>
  \<^verbatim>\<open>cs.ReaderAt(ctx, ocispec.Descriptor{Digest: id})\<close>: the store either fails or opens the
  blob; \<^verbatim>\<open>content.NewReader(ra)\<close> reads it from its start.
\<close>

type_synonym Store = "digest \<Rightarrow> ioerror + Reader"

definition NewReader :: "Reader \<Rightarrow> Reader" where
  "NewReader ra = ra"

subsection \<open>detectCompressionType\<close>

text \<open>The signature table the loop ranges over (one entry).\<close>

definition signatures :: "(CompressionType \<times> byte list) list" where
  "signatures = [(Gzip, [0x1F, 0x8B, 0x08])]"

fun matchSignatures ::
  "(CompressionType \<times> byte list) list \<Rightarrow> nat \<Rightarrow> byte list \<Rightarrow> CompressionType \<times> ioerror option" where
  "matchSignatures [] n buf = (Uncompressed, None)"
| "matchSignatures ((c, m) # rest) n buf =
     (if n < length m then matchSignatures rest n buf
      else if m = take (length m) buf then (c, None)
      else matchSignatures rest n buf)"

definition detectCompressionType :: "Reader \<Rightarrow> CompressionType \<times> ioerror option" where
  "detectCompressionType cr =
     (case Read cr 10 of (buf, n, err) \<Rightarrow>
        if err \<noteq> None \<and> err \<noteq> Some EOF then (UnknownCompression, err)
        else matchSignatures signatures n buf)"

subsection \<open>DetectLayerMediaType\<close>

text \<open>
  \<^verbatim>\<open>errors.Errorf("failed to detect layer %v compression type", id)\<close>; the digest
  \<^verbatim>\<open>id\<close> is \<open>dgst\<close> here.
\<close>

definition detectFailureMessage :: "digest \<Rightarrow> string" where
  "detectFailureMessage dgst = ''failed to detect layer '' @ dgst @ '' compression type''"

definition DetectLayerMediaType :: "Store \<Rightarrow> digest \<Rightarrow> bool \<Rightarrow> error + string" where
  "DetectLayerMediaType cs dgst oci =
     (case cs dgst of
        Inl err \<Rightarrow> Inl (Propagated err)
      | Inr ra \<Rightarrow>
          (case detectCompressionType (NewReader ra) of
             (ct, Some err) \<Rightarrow> Inl (Propagated err)
           | (ct, None) \<Rightarrow>
               (case ct of
                  Uncompressed \<Rightarrow>
                    if oci then Inr MediaTypeImageLayer else Inr MediaTypeDockerSchema2Layer
                | Gzip \<Rightarrow>
                    if oci then Inr MediaTypeImageLayerGzip
                    else Inr MediaTypeDockerSchema2LayerGzip
                | _ \<Rightarrow> Inl (DetectionFailure (detectFailureMessage dgst)))))"

subsection \<open>ConvertLayerMediaType\<close>

definition toDockerLayerType :: "string \<rightharpoonup> string" where
  "toDockerLayerType = map_of
     [(MediaTypeImageLayer, MediaTypeDockerSchema2Layer),
      (MediaTypeDockerSchema2Layer, MediaTypeDockerSchema2Layer),
      (MediaTypeImageLayerGzip, MediaTypeDockerSchema2LayerGzip),
      (MediaTypeDockerSchema2LayerGzip, MediaTypeDockerSchema2LayerGzip)]"

definition toOCILayerType :: "string \<rightharpoonup> string" where
  "toOCILayerType = map_of
     [(MediaTypeImageLayer, MediaTypeImageLayer),
      (MediaTypeDockerSchema2Layer, MediaTypeImageLayer),
      (MediaTypeImageLayerGzip, MediaTypeImageLayerGzip),
      (MediaTypeDockerSchema2LayerGzip, MediaTypeImageLayerGzip)]"

text \<open>Indexing a Go map with a key it does not hold gives the zero value, the empty string.\<close>

definition index :: "(string \<rightharpoonup> string) \<Rightarrow> string \<Rightarrow> string" where
  "index m k = (case m k of None \<Rightarrow> '''' | Some v \<Rightarrow> v)"

text \<open>A call of \<^verbatim>\<open>logrus.Warnf\<close>: its format and its argument.\<close>

datatype diagnostic = Warnf string string

text \<open>The function returns its string; the second component lists the warnings it logged.\<close>

definition ConvertLayerMediaType :: "string \<Rightarrow> bool \<Rightarrow> string \<times> diagnostic list" where
  "ConvertLayerMediaType mediaType oci =
     (let converted = (if oci then index toOCILayerType mediaType
                       else index toDockerLayerType mediaType)
      in if converted = ''''
         then (mediaType, [Warnf ''unhandled conversion for mediatype %q'' mediaType])
         else (converted, []))"

subsection \<open>GetMediaTypeForLayers\<close>

text \<open>
  Modelled from the spec: the \<^verbatim>\<open>DiffPair\<close> struct is declared in another file of the
  package. It pairs the digest of the uncompressed layer with the digest of the stored blob.
\<close>

record DiffPair =
  DiffID :: digest
  Blobsum :: digest

text \<open>
  Modelled from the spec: \<^verbatim>\<open>cache.RefInfo\<close>, of which \<^verbatim>\<open>Info()\<close> gives the DiffID, the blob
  digest and the media type recorded in a snapshot (the field \<^verbatim>\<open>DiffID\<close> is \<open>RefDiffID\<close>
  here).
\<close>

record RefInfo =
  RefDiffID :: digest
  Blob :: digest
  MediaType :: string

text \<open>
  Modelled from the spec: the chain of immutable layer snapshots, from a leaf back to its
  root, and \<^verbatim>\<open>cache.ImmutableRef\<close>, a handle into it.
\<close>

datatype snapshot = Snapshot (snapInfo: RefInfo) (snapParent: "snapshot option")

record ImmutableRef =
  handle :: nat
  snap :: snapshot

text \<open>
  Modelled from the spec: the handles in play. The state holds the next fresh handle, and
  the handles obtained and released so far, each list in the order of the calls.
\<close>

record RefState =
  nextHandle :: nat
  acquired :: "nat list"
  released :: "nat list"

text \<open>
  Modelled from the spec: the operations of \<^verbatim>\<open>cache.ImmutableRef\<close>. \<^verbatim>\<open>Info\<close> reads the
  snapshot, \<^verbatim>\<open>Clone\<close> gives a new handle to the same snapshot, \<^verbatim>\<open>Parent\<close> a new handle to
  the parent snapshot or nil at the root, and \<^verbatim>\<open>Release\<close> gives one handle up.
\<close>

definition Info :: "ImmutableRef \<Rightarrow> RefInfo" where
  "Info r = snapInfo (snap r)"

definition obtain_handle :: "snapshot \<Rightarrow> RefState \<Rightarrow> ImmutableRef \<times> RefState" where
  "obtain_handle sn s =
     (\<lparr>handle = nextHandle s, snap = sn\<rparr>,
      s\<lparr>nextHandle := Suc (nextHandle s), acquired := acquired s @ [nextHandle s]\<rparr>)"

definition Clone :: "ImmutableRef \<Rightarrow> RefState \<Rightarrow> ImmutableRef \<times> RefState" where
  "Clone r s = obtain_handle (snap r) s"

definition Parent :: "ImmutableRef \<Rightarrow> RefState \<Rightarrow> ImmutableRef option \<times> RefState" where
  "Parent r s =
     (case snapParent (snap r) of
        None \<Rightarrow> (None, s)
      | Some p \<Rightarrow> (case obtain_handle p s of (r', s') \<Rightarrow> (Some r', s')))"

definition Release :: "ImmutableRef \<Rightarrow> RefState \<Rightarrow> RefState" where
  "Release r s = s\<lparr>released := released s @ [handle r]\<rparr>"

text \<open>
  The loop \<^verbatim>\<open>for i := range diffPairs\<close>, from step \<open>i\<close> with the cursor \<open>tref\<close>. It returns the
  slice, the cursor the loop ends with (none after \<^verbatim>\<open>tref = parent\<close> with a nil parent) and
  the state of the handles.
\<close>

function walk ::
  "DiffPair list \<Rightarrow> nat \<Rightarrow> ImmutableRef \<Rightarrow> string list \<Rightarrow> RefState
     \<Rightarrow> string list \<times> ImmutableRef option \<times> RefState" where
  "walk diffPairs i tref layerTypes s =
     (if i < length diffPairs then
        (let dp = diffPairs ! (length diffPairs - 1 - i);
             info = Info tref
         in if \<not> (RefDiffID info = DiffID dp \<and> Blob info = Blobsum dp)
            then (layerTypes, Some tref, s)
            else
              (let layerTypes' = layerTypes[length diffPairs - 1 - i := MediaType info]
               in case Parent tref s of (parent, s1) \<Rightarrow>
                    (let s2 = Release tref s1
                     in case parent of
                          None \<Rightarrow> (layerTypes', None, s2)
                        | Some p \<Rightarrow> walk diffPairs (i + 1) p layerTypes' s2)))
      else (layerTypes, Some tref, s))"
  by pat_completeness auto
termination
  by (relation "measure (\<lambda>(diffPairs, i, tref, layerTypes, s). length diffPairs - i)") auto

definition GetMediaTypeForLayers ::
  "DiffPair list \<Rightarrow> ImmutableRef option \<Rightarrow> RefState \<Rightarrow> string list \<times> RefState" where
  "GetMediaTypeForLayers diffPairs ref s =
     (let layerTypes = replicate (length diffPairs) ''''
      in case ref of
           None \<Rightarrow> (layerTypes, s)
         | Some r \<Rightarrow>
             (case Clone r s of (tref, s1) \<Rightarrow>
                (case walk diffPairs 0 tref layerTypes s1 of (layerTypes', tref', s2) \<Rightarrow>
                   (layerTypes',
                    (case tref' of None \<Rightarrow> s2 | Some t \<Rightarrow> Release t s2)))))"

subsection \<open>Notions used to state the properties\<close>

text \<open>The test of the loop: both hashes of the reference equal those of the DiffPair.\<close>

definition hashesMatch :: "RefInfo \<Rightarrow> DiffPair \<Rightarrow> bool" where
  "hashesMatch info dp = (RefDiffID info = DiffID dp \<and> Blob info = Blobsum dp)"

text \<open>The infos recorded along a chain of snapshots, from the child to the root.\<close>

fun infos :: "snapshot \<Rightarrow> RefInfo list" where
  "infos (Snapshot i None) = [i]"
| "infos (Snapshot i (Some p)) = i # infos p"

text \<open>How many leading references of a chain agree with the DiffPairs they are held against.\<close>

fun matchedPrefix :: "RefInfo list \<Rightarrow> DiffPair list \<Rightarrow> nat" where
  "matchedPrefix (x # xs) (d # ds) = (if hashesMatch x d then Suc (matchedPrefix xs ds) else 0)"
| "matchedPrefix xs ds = 0"

text \<open>The number of entries of a result that are not the empty string.\<close>

definition nonEmptyEntries :: "string list \<Rightarrow> nat" where
  "nonEmptyEntries xs = length (filter (\<lambda>x. x \<noteq> []) xs)"

text \<open>The handles a call obtained and released, read off the states before and after it.\<close>

definition obtainedDuring :: "RefState \<Rightarrow> RefState \<Rightarrow> nat list" where
  "obtainedDuring s s' = drop (length (acquired s)) (acquired s')"

definition releasedDuring :: "RefState \<Rightarrow> RefState \<Rightarrow> nat list" where
  "releasedDuring s s' = drop (length (released s)) (released s')"

subsection \<open>Concrete inputs\<close>

definition failingStore :: Store where
  "failingStore dgst = Inr (Reader [] (Some (IOFailure ''read error'')))"

definition gzipStore :: Store where
  "gzipStore dgst = Inr (Reader [0x1F, 0x8B, 0x08, 0x00] None)"

definition emptyBlobStore :: Store where
  "emptyBlobStore dgst = Inr (Reader [] (Some EOF))"

definition brokenStore :: Store where
  "brokenStore dgst = Inl (IOFailure ''not found'')"

text \<open>The caller holds handle 0, the head reference.\<close>

definition exampleState :: RefState where
  "exampleState = \<lparr>nextHandle = 1, acquired = [0], released = []\<rparr>"

definition onePair :: "DiffPair list" where
  "onePair = [\<lparr>DiffID = ''sha256:d1'', Blobsum = ''sha256:b1''\<rparr>]"

definition unlabelledRef :: ImmutableRef where
  "unlabelledRef =
     \<lparr>handle = 0,
      snap = Snapshot \<lparr>RefDiffID = ''sha256:d1'', Blob = ''sha256:b1'', MediaType = []\<rparr> None\<rparr>"

definition twoPairs :: "DiffPair list" where
  "twoPairs = [\<lparr>DiffID = ''sha256:d1'', Blobsum = ''sha256:b1''\<rparr>,
               \<lparr>DiffID = ''sha256:d2'', Blobsum = ''sha256:b2''\<rparr>]"

definition matchingRef :: ImmutableRef where
  "matchingRef =
     \<lparr>handle = 0,
      snap = Snapshot
        \<lparr>RefDiffID = ''sha256:d2'', Blob = ''sha256:b2'', MediaType = MediaTypeImageLayerGzip\<rparr>
        (Some (Snapshot
           \<lparr>RefDiffID = ''sha256:d1'', Blob = ''sha256:b1'',
            MediaType = MediaTypeDockerSchema2Layer\<rparr> None))\<rparr>"

definition brokenParentRef :: ImmutableRef where
  "brokenParentRef =
     \<lparr>handle = 0,
      snap = Snapshot
        \<lparr>RefDiffID = ''sha256:d2'', Blob = ''sha256:b2'', MediaType = MediaTypeImageLayerGzip\<rparr>
        (Some (Snapshot
           \<lparr>RefDiffID = ''sha256:d1'', Blob = ''sha256:ff'',
            MediaType = MediaTypeDockerSchema2Layer\<rparr> None))\<rparr>"

section \<open>Properties\<close>

subsection \<open>Media type conversion\<close>

lemma canonical_distinct:
  "MediaTypeImageLayer \<noteq> MediaTypeImageLayerGzip"
  "MediaTypeImageLayer \<noteq> MediaTypeDockerSchema2Layer"
  "MediaTypeImageLayer \<noteq> MediaTypeDockerSchema2LayerGzip"
  "MediaTypeImageLayerGzip \<noteq> MediaTypeDockerSchema2Layer"
  "MediaTypeImageLayerGzip \<noteq> MediaTypeDockerSchema2LayerGzip"
  "MediaTypeDockerSchema2Layer \<noteq> MediaTypeDockerSchema2LayerGzip"
  "MediaTypeImageLayer \<noteq> ''''"
  "MediaTypeImageLayerGzip \<noteq> ''''"
  "MediaTypeDockerSchema2Layer \<noteq> ''''"
  "MediaTypeDockerSchema2LayerGzip \<noteq> ''''"
  by (simp_all add: MediaTypeImageLayer_def MediaTypeImageLayerGzip_def
      MediaTypeDockerSchema2Layer_def MediaTypeDockerSchema2LayerGzip_def)

lemma convert_oci:
  "ConvertLayerMediaType MediaTypeImageLayer True = (MediaTypeImageLayer, [])"
  "ConvertLayerMediaType MediaTypeImageLayerGzip True = (MediaTypeImageLayerGzip, [])"
  "ConvertLayerMediaType MediaTypeDockerSchema2Layer True = (MediaTypeImageLayer, [])"
  "ConvertLayerMediaType MediaTypeDockerSchema2LayerGzip True = (MediaTypeImageLayerGzip, [])"
  using canonical_distinct
  by (simp_all add: ConvertLayerMediaType_def toOCILayerType_def index_def)

lemma convert_docker:
  "ConvertLayerMediaType MediaTypeImageLayer False = (MediaTypeDockerSchema2Layer, [])"
  "ConvertLayerMediaType MediaTypeImageLayerGzip False = (MediaTypeDockerSchema2LayerGzip, [])"
  "ConvertLayerMediaType MediaTypeDockerSchema2Layer False = (MediaTypeDockerSchema2Layer, [])"
  "ConvertLayerMediaType MediaTypeDockerSchema2LayerGzip False = (MediaTypeDockerSchema2LayerGzip, [])"
  using canonical_distinct
  by (simp_all add: ConvertLayerMediaType_def toDockerLayerType_def index_def)

text \<open>
  Claim C4, amended. For each of the four canonical media types \<open>m\<close>, converting to OCI and
  then to Docker gives the Docker media type of the same compression, which is what
  converting \<open>m\<close> to Docker gives directly. The result is \<open>m\<close> again exactly when \<open>m\<close> is one
  of the two Docker media types.
\<close>

theorem ConvertLayerMediaType_roundtrip:
  "m \<in> set canonicalMediaTypes \<Longrightarrow>
     fst (ConvertLayerMediaType (fst (ConvertLayerMediaType m True)) False)
       = fst (ConvertLayerMediaType m False)
     \<and> (fst (ConvertLayerMediaType (fst (ConvertLayerMediaType m True)) False) = m
          \<longleftrightarrow> m = MediaTypeDockerSchema2Layer \<or> m = MediaTypeDockerSchema2LayerGzip)"
  using canonical_distinct
  by (auto simp add: canonicalMediaTypes_def convert_oci convert_docker)

theorem ConvertLayerMediaType_roundtrip_witness:
  "MediaTypeDockerSchema2LayerGzip \<in> set canonicalMediaTypes
     \<and> fst (ConvertLayerMediaType
              (fst (ConvertLayerMediaType MediaTypeDockerSchema2LayerGzip True)) False)
         = MediaTypeDockerSchema2LayerGzip"
  using ConvertLayerMediaType_roundtrip [of MediaTypeDockerSchema2LayerGzip]
  by (auto simp add: canonicalMediaTypes_def)

text \<open>
  The round trip from the OCI uncompressed media type does not come back to it: it ends at
  the Docker uncompressed media type.
\<close>

theorem ConvertLayerMediaType_roundtrip_counterexample:
  "fst (ConvertLayerMediaType (fst (ConvertLayerMediaType MediaTypeImageLayer True)) False)
     \<noteq> MediaTypeImageLayer"
  using canonical_distinct by (simp add: convert_oci convert_docker)

text \<open>
  Claim C7. For a string that is none of the four canonical media types, and for either
  value of the flag, \<^verbatim>\<open>ConvertLayerMediaType\<close> returns that string unchanged and logs
  exactly one warning. The function is total: it has no error result.
\<close>

theorem ConvertLayerMediaType_unhandled:
  "m \<notin> set canonicalMediaTypes \<Longrightarrow>
     ConvertLayerMediaType m oci = (m, [Warnf ''unhandled conversion for mediatype %q'' m])"
  by (simp add: canonicalMediaTypes_def ConvertLayerMediaType_def toOCILayerType_def
      toDockerLayerType_def index_def)

theorem ConvertLayerMediaType_unhandled_witness:
  "''text/plain'' \<notin> set canonicalMediaTypes
   \<and> ConvertLayerMediaType ''text/plain'' True
       = (''text/plain'', [Warnf ''unhandled conversion for mediatype %q'' ''text/plain''])
   \<and> ConvertLayerMediaType [] False
       = ([], [Warnf ''unhandled conversion for mediatype %q'' []])"
  using ConvertLayerMediaType_unhandled [of "''text/plain''" True]
    ConvertLayerMediaType_unhandled [of "[]" False] canonical_distinct
  by (simp add: canonicalMediaTypes_def MediaTypeImageLayer_def MediaTypeImageLayerGzip_def
      MediaTypeDockerSchema2Layer_def MediaTypeDockerSchema2LayerGzip_def)

subsection \<open>Compression detection\<close>

lemma matchSignatures_signatures:
  "matchSignatures signatures n buf = (Gzip, None)
   \<or> matchSignatures signatures n buf = (Uncompressed, None)"
  by (simp add: signatures_def)

lemma detectCompressionType_unfold:
  "detectCompressionType cr =
     (if readErr cr \<noteq> None \<and> readErr cr \<noteq> Some EOF then (UnknownCompression, readErr cr)
      else matchSignatures signatures (min 10 (length (delivered cr))) (fst (Read cr 10)))"
  by (simp add: detectCompressionType_def Read_def)

lemma detect_unknown_has_error:
  assumes "detectCompressionType cr = (UnknownCompression, err)"
  shows "err = readErr cr \<and> err \<noteq> None \<and> err \<noteq> Some EOF"
proof (cases "readErr cr \<noteq> None \<and> readErr cr \<noteq> Some EOF")
  case True
  with assms show ?thesis by (simp add: detectCompressionType_unfold)
next
  case False
  then have "detectCompressionType cr
               = matchSignatures signatures (min 10 (length (delivered cr))) (fst (Read cr 10))"
    by (auto simp add: detectCompressionType_unfold)
  with assms matchSignatures_signatures [of "min 10 (length (delivered cr))" "fst (Read cr 10)"]
  show ?thesis by simp
qed

lemma detect_known_no_error:
  assumes "detectCompressionType cr = (ct, err)" and "ct \<noteq> UnknownCompression"
  shows "err = None"
proof (cases "readErr cr \<noteq> None \<and> readErr cr \<noteq> Some EOF")
  case True
  with assms show ?thesis by (simp add: detectCompressionType_unfold)
next
  case False
  then have "detectCompressionType cr
               = matchSignatures signatures (min 10 (length (delivered cr))) (fst (Read cr 10))"
    by (auto simp add: detectCompressionType_unfold)
  with assms matchSignatures_signatures [of "min 10 (length (delivered cr))" "fst (Read cr 10)"]
  show ?thesis by auto
qed

lemma detect_error_is_read_error:
  assumes "detectCompressionType cr = (ct, Some e)"
  shows "readErr cr = Some e \<and> e \<noteq> EOF"
proof -
  from assms have "ct = UnknownCompression"
    using detect_known_no_error by fastforce
  with assms detect_unknown_has_error [of cr "Some e"] show ?thesis by auto
qed

lemma take_three_eq: "take 3 xs = [a, b, c] \<Longrightarrow> \<exists>rest. xs = a # b # c # rest"
proof -
  assume t: "take 3 xs = [a, b, c]"
  obtain x xs1 where 1: "xs = x # xs1" using t by (cases xs) auto
  obtain y xs2 where 2: "xs1 = y # xs2" using t 1 by (cases xs1) (auto simp add: numeral_3_eq_3)
  obtain z xs3 where 3: "xs2 = z # xs3" using t 1 2 by (cases xs2) (auto simp add: numeral_3_eq_3)
  from t 1 2 3 show ?thesis by (simp add: numeral_3_eq_3)
qed

lemma signature_prefix:
  "detectCompressionType (Reader (0x1F # 0x8B # 0x08 # rest) None) = (Gzip, None)"
  "detectCompressionType (Reader (0x1F # 0x8B # 0x08 # rest) (Some EOF)) = (Gzip, None)"
  by (simp_all add: detectCompressionType_def Read_def signatures_def)

text \<open>
  Claim C5. When the read delivers at least three bytes, the first three are
  \<open>0x1F 0x8B 0x08\<close>, and the read reports nothing but, at most, the end of the stream,
  \<^verbatim>\<open>detectCompressionType\<close> returns Gzip and no error, whatever bytes follow and however
  many there are.
\<close>

theorem detectCompressionType_gzip:
  assumes "take 3 (delivered cr) = [0x1F, 0x8B, 0x08]"
    and "readErr cr = None \<or> readErr cr = Some EOF"
  shows "detectCompressionType cr = (Gzip, None)"
proof -
  from take_three_eq [OF assms(1)] obtain rest
    where d: "delivered cr = 0x1F # 0x8B # 0x08 # rest" ..
  have "cr = Reader (0x1F # 0x8B # 0x08 # rest) (readErr cr)"
    using d by (cases cr) simp
  with assms(2) signature_prefix [of rest] show ?thesis
    by metis
qed

theorem detectCompressionType_gzip_witness:
  "take 3 (delivered (Reader [0x1F, 0x8B, 0x08] (Some EOF))) = [0x1F, 0x8B, 0x08]
   \<and> detectCompressionType (Reader [0x1F, 0x8B, 0x08] (Some EOF)) = (Gzip, None)
   \<and> detectCompressionType
         (Reader [0x1F, 0x8B, 0x08, 0x00, 0xFF, 0x01, 0x02, 0x03, 0x04, 0x05, 0x06, 0x07] None)
       = (Gzip, None)"
  using detectCompressionType_gzip [of "Reader [0x1F, 0x8B, 0x08] (Some EOF)"]
    detectCompressionType_gzip
      [of "Reader [0x1F, 0x8B, 0x08, 0x00, 0xFF, 0x01, 0x02, 0x03, 0x04, 0x05, 0x06, 0x07] None"]
  by simp

text \<open>
  Claim C6. For a zero-length blob, where the read reports the end of the stream with zero
  bytes, \<^verbatim>\<open>detectCompressionType\<close> returns Uncompressed and no error. Whatever the read
  delivered, the end of the stream is not turned into an error, and \<^verbatim>\<open>io.EOF\<close> is never
  the error returned.
\<close>

theorem detectCompressionType_empty_blob:
  "detectCompressionType (Reader [] (Some EOF)) = (Uncompressed, None)
   \<and> (\<forall>bs. snd (detectCompressionType (Reader bs (Some EOF))) = None)
   \<and> (\<forall>cr. snd (detectCompressionType cr) \<noteq> Some EOF)"
  by (auto simp add: detectCompressionType_def Read_def signatures_def)

subsection \<open>Media type of a blob\<close>

text \<open>
  Claim C8, amended. Once the store has opened the blob: if detection yields
  UnknownCompression, it does so together with the error of the read, which is not
  \<^verbatim>\<open>io.EOF\<close>, and \<^verbatim>\<open>DetectLayerMediaType\<close> fails with that error, passed on as it is; if
  detection yields Uncompressed or Gzip, \<^verbatim>\<open>DetectLayerMediaType\<close> returns the media type of
  the table \<open>{Uncompressed, Gzip} \<times> {OCI, Docker}\<close>.
\<close>

theorem DetectLayerMediaType_by_detection:
  assumes "cs dgst = Inr ra"
    and "detectCompressionType (NewReader ra) = (ct, err)"
  shows "(ct = UnknownCompression \<longrightarrow>
            (\<exists>e. err = Some e \<and> e \<noteq> EOF \<and> readErr ra = Some e
               \<and> DetectLayerMediaType cs dgst oci = Inl (Propagated e)))
       \<and> (ct = Uncompressed \<longrightarrow>
            DetectLayerMediaType cs dgst oci
              = Inr (if oci then MediaTypeImageLayer else MediaTypeDockerSchema2Layer))
       \<and> (ct = Gzip \<longrightarrow>
            DetectLayerMediaType cs dgst oci
              = Inr (if oci then MediaTypeImageLayerGzip else MediaTypeDockerSchema2LayerGzip))"
proof (cases ct)
  case Uncompressed
  with assms(2) have "err = None" using detect_known_no_error by blast
  with assms Uncompressed show ?thesis by (simp add: DetectLayerMediaType_def)
next
  case Gzip
  with assms(2) have "err = None" using detect_known_no_error by blast
  with assms Gzip show ?thesis by (simp add: DetectLayerMediaType_def)
next
  case UnknownCompression
  with assms(2) have "err = readErr (NewReader ra)" "err \<noteq> None" "err \<noteq> Some EOF"
    using detect_unknown_has_error by blast+
  then obtain e where "err = Some e" "e \<noteq> EOF" "readErr (NewReader ra) = Some e"
    by (cases err) auto
  with assms UnknownCompression show ?thesis
    by (simp add: DetectLayerMediaType_def NewReader_def)
qed

theorem DetectLayerMediaType_by_detection_witness:
  "DetectLayerMediaType failingStore ''sha256:0a'' False = Inl (Propagated (IOFailure ''read error''))
   \<and> DetectLayerMediaType emptyBlobStore ''sha256:0a'' False = Inr MediaTypeDockerSchema2Layer
   \<and> DetectLayerMediaType gzipStore ''sha256:0a'' True = Inr MediaTypeImageLayerGzip"
proof -
  have 1: "failingStore ''sha256:0a'' = Inr (Reader [] (Some (IOFailure ''read error'')))"
    by (simp add: failingStore_def)
  have 2: "detectCompressionType (NewReader (Reader [] (Some (IOFailure ''read error''))))
             = (UnknownCompression, Some (IOFailure ''read error''))"
    by (simp add: NewReader_def detectCompressionType_def Read_def)
  have 3: "emptyBlobStore ''sha256:0a'' = Inr (Reader [] (Some EOF))"
    by (simp add: emptyBlobStore_def)
  have 4: "detectCompressionType (NewReader (Reader [] (Some EOF))) = (Uncompressed, None)"
    by (simp add: NewReader_def detectCompressionType_def Read_def signatures_def)
  have 5: "gzipStore ''sha256:0a'' = Inr (Reader [0x1F, 0x8B, 0x08, 0x00] None)"
    by (simp add: gzipStore_def)
  have 6: "detectCompressionType (NewReader (Reader [0x1F, 0x8B, 0x08, 0x00] None)) = (Gzip, None)"
    by (simp add: NewReader_def detectCompressionType_def Read_def signatures_def)
  show ?thesis
    using DetectLayerMediaType_by_detection [of failingStore "''sha256:0a''"
        "Reader [] (Some (IOFailure ''read error''))" UnknownCompression
        "Some (IOFailure ''read error'')" False]
      DetectLayerMediaType_by_detection [of emptyBlobStore "''sha256:0a''"
        "Reader [] (Some EOF)" Uncompressed None False]
      DetectLayerMediaType_by_detection [of gzipStore "''sha256:0a''"
        "Reader [0x1F, 0x8B, 0x08, 0x00] None" Gzip None True]
      1 2 3 4 5 6
    by (simp del: One_nat_def)
qed

text \<open>
  A read that fails makes detection yield UnknownCompression, and the error returned is
  the error of the read, not the one that names the digest.
\<close>

theorem DetectLayerMediaType_unknown_counterexample:
  "fst (detectCompressionType (NewReader (Reader [] (Some (IOFailure ''read error'')))))
     = UnknownCompression
   \<and> DetectLayerMediaType failingStore ''sha256:0a'' True
       = Inl (Propagated (IOFailure ''read error''))
   \<and> DetectLayerMediaType failingStore ''sha256:0a'' True
       \<noteq> Inl (DetectionFailure (detectFailureMessage ''sha256:0a''))"
  by (simp add: DetectLayerMediaType_def failingStore_def NewReader_def
      detectCompressionType_def Read_def)

text \<open>
  Claim C10. \<^verbatim>\<open>detectCompressionType\<close> returns UnknownCompression only together with an
  error, so \<^verbatim>\<open>DetectLayerMediaType\<close> returns before its switch and never returns the
  "failed to detect" error: every error it returns is the one of the store's
  \<^verbatim>\<open>ReaderAt\<close> call or the one of a read that failed with something other than \<^verbatim>\<open>io.EOF\<close>.
\<close>

theorem DetectionFailure_unreachable:
  "(\<forall>cr err. detectCompressionType cr = (UnknownCompression, err) \<longrightarrow> err \<noteq> None)
   \<and> (\<forall>msg. DetectLayerMediaType cs dgst oci \<noteq> Inl (DetectionFailure msg))
   \<and> (\<forall>e. DetectLayerMediaType cs dgst oci = Inl e \<longrightarrow>
         (\<exists>err. e = Propagated err
            \<and> (cs dgst = Inl err
                \<or> (\<exists>ra. cs dgst = Inr ra \<and> readErr (NewReader ra) = Some err \<and> err \<noteq> EOF))))"
proof (intro conjI allI impI)
  fix cr err assume "detectCompressionType cr = (UnknownCompression, err)"
  then show "err \<noteq> None" using detect_unknown_has_error by blast
next
  fix msg
  show "DetectLayerMediaType cs dgst oci \<noteq> Inl (DetectionFailure msg)"
  proof (cases "cs dgst")
    case (Inl e)
    then show ?thesis by (simp add: DetectLayerMediaType_def)
  next
    case (Inr ra)
    obtain ct err where d: "detectCompressionType (NewReader ra) = (ct, err)"
      by (cases "detectCompressionType (NewReader ra)")
    show ?thesis
    proof (cases err)
      case None
      with d have "ct \<noteq> UnknownCompression" using detect_unknown_has_error by blast
      with Inr d None show ?thesis by (cases ct) (simp_all add: DetectLayerMediaType_def)
    next
      case (Some e)
      with Inr d show ?thesis by (simp add: DetectLayerMediaType_def)
    qed
  qed
next
  fix e assume a: "DetectLayerMediaType cs dgst oci = Inl e"
  show "\<exists>err. e = Propagated err
            \<and> (cs dgst = Inl err
                \<or> (\<exists>ra. cs dgst = Inr ra \<and> readErr (NewReader ra) = Some err \<and> err \<noteq> EOF))"
  proof (cases "cs dgst")
    case (Inl err)
    with a show ?thesis by (auto simp add: DetectLayerMediaType_def)
  next
    case (Inr ra)
    obtain ct err where d: "detectCompressionType (NewReader ra) = (ct, err)"
      by (cases "detectCompressionType (NewReader ra)")
    show ?thesis
    proof (cases err)
      case None
      with d have "ct \<noteq> UnknownCompression" using detect_unknown_has_error by blast
      with Inr d None a show ?thesis
        by (cases ct) (auto simp add: DetectLayerMediaType_def split: if_splits)
    next
      case (Some x)
      with d have "readErr (NewReader ra) = Some x \<and> x \<noteq> EOF"
        using detect_error_is_read_error by blast
      with Inr d Some a show ?thesis by (auto simp add: DetectLayerMediaType_def)
    qed
  qed
qed

theorem DetectionFailure_unreachable_witness:
  "DetectLayerMediaType brokenStore ''sha256:0b'' True = Inl (Propagated (IOFailure ''not found''))
   \<and> brokenStore ''sha256:0b'' = Inl (IOFailure ''not found'')
   \<and> DetectLayerMediaType brokenStore ''sha256:0b'' True
       \<noteq> Inl (DetectionFailure (detectFailureMessage ''sha256:0b''))"
proof -
  have a: "DetectLayerMediaType brokenStore ''sha256:0b'' True
             = Inl (Propagated (IOFailure ''not found''))"
    by (simp add: brokenStore_def DetectLayerMediaType_def)
  have b: "brokenStore ''sha256:0b'' = Inl (IOFailure ''not found'')"
    by (simp add: brokenStore_def)
  have "\<forall>msg. DetectLayerMediaType brokenStore ''sha256:0b'' True \<noteq> Inl (DetectionFailure msg)"
    using DetectionFailure_unreachable [of brokenStore "''sha256:0b''" True]
    by (rule conjunct2 [THEN conjunct1])
  then have c: "DetectLayerMediaType brokenStore ''sha256:0b'' True
                  \<noteq> Inl (DetectionFailure (detectFailureMessage ''sha256:0b''))"
    by (rule spec)
  from a b c show ?thesis by (intro conjI)
qed

subsection \<open>Media types along a chain of references\<close>

declare walk.simps [simp del]

lemma walk_done:
  "\<not> i < length dps \<Longrightarrow> walk dps i tref lt s = (lt, Some tref, s)"
  by (subst walk.simps) simp

lemma walk_mismatch:
  "i < length dps \<Longrightarrow> \<not> hashesMatch (Info tref) (dps ! (length dps - 1 - i)) \<Longrightarrow>
     walk dps i tref lt s = (lt, Some tref, s)"
  by (subst walk.simps) (simp add: hashesMatch_def Let_def)

lemma walk_root:
  "i < length dps \<Longrightarrow> hashesMatch (Info tref) (dps ! (length dps - 1 - i)) \<Longrightarrow>
   snapParent (snap tref) = None \<Longrightarrow>
     walk dps i tref lt s
       = (lt[length dps - 1 - i := MediaType (Info tref)], None, Release tref s)"
  by (subst walk.simps) (simp add: hashesMatch_def Let_def Parent_def)

lemma walk_step:
  "i < length dps \<Longrightarrow> hashesMatch (Info tref) (dps ! (length dps - 1 - i)) \<Longrightarrow>
   snapParent (snap tref) = Some p \<Longrightarrow>
     walk dps i tref lt s
       = walk dps (Suc i) (fst (obtain_handle p s))
           (lt[length dps - 1 - i := MediaType (Info tref)])
           (Release tref (snd (obtain_handle p s)))"
  by (subst walk.simps) (simp add: hashesMatch_def Let_def Parent_def split: prod.splits)

lemma infos_Cons: "infos sn = snapInfo sn # (case snapParent sn of None \<Rightarrow> [] | Some p \<Rightarrow> infos p)"
  by (cases sn rule: infos.cases) simp_all

lemma matchedPrefix_le: "matchedPrefix xs ds \<le> length ds"
  by (induction xs ds rule: matchedPrefix.induct) simp_all

lemma matchedPrefix_le_infos: "matchedPrefix xs ds \<le> length xs"
  by (induction xs ds rule: matchedPrefix.induct) simp_all

lemma matchedPrefix_eq:
  "k \<le> length xs \<Longrightarrow> k \<le> length ds \<Longrightarrow> (\<forall>i<k. hashesMatch (xs ! i) (ds ! i)) \<Longrightarrow>
   (k < length xs \<Longrightarrow> k < length ds \<Longrightarrow> \<not> hashesMatch (xs ! k) (ds ! k)) \<Longrightarrow>
     matchedPrefix xs ds = k"
proof (induction k arbitrary: xs ds)
  case 0
  show ?case
  proof (cases xs)
    case Nil
    then show ?thesis by simp
  next
    case (Cons x xs')
    show ?thesis
    proof (cases ds)
      case Nil
      with Cons show ?thesis by simp
    next
      case (Cons d ds')
      with \<open>xs = x # xs'\<close> 0 show ?thesis by simp
    qed
  qed
next
  case (Suc k)
  from Suc.prems(1) obtain x xs' where xs: "xs = x # xs'" by (cases xs) auto
  from Suc.prems(2) obtain d ds' where ds: "ds = d # ds'" by (cases ds) auto
  from Suc.prems(3) have m0: "hashesMatch x d" using xs ds by auto
  have all: "\<forall>i<k. hashesMatch (xs' ! i) (ds' ! i)"
  proof (intro allI impI)
    fix i assume "i < k"
    then have "hashesMatch (xs ! Suc i) (ds ! Suc i)" using Suc.prems(3) by simp
    then show "hashesMatch (xs' ! i) (ds' ! i)" by (simp add: xs ds)
  qed
  have "matchedPrefix xs' ds' = k"
  proof (rule Suc.IH)
    show "k \<le> length xs'" using Suc.prems(1) xs by simp
    show "k \<le> length ds'" using Suc.prems(2) ds by simp
    show "\<forall>i<k. hashesMatch (xs' ! i) (ds' ! i)" by (rule all)
    show "\<not> hashesMatch (xs' ! k) (ds' ! k)" if "k < length xs'" "k < length ds'"
      using Suc.prems(4) that by (simp add: xs ds)
  qed
  with m0 show ?case by (simp add: xs ds)
qed

lemma drop_update_same: "j < length xs \<Longrightarrow> drop j (xs[j := v]) = v # drop (Suc j) xs"
  by (simp add: upd_conv_take_nth_drop)

lemma walk_layerTypes:
  "length dps - i = n \<Longrightarrow> i \<le> length dps \<Longrightarrow> length lt = length dps \<Longrightarrow>
     fst (walk dps i tref lt s)
       = take (length dps - i - matchedPrefix (infos (snap tref)) (drop i (rev dps))) lt
         @ rev (map MediaType (take (matchedPrefix (infos (snap tref)) (drop i (rev dps)))
                                  (infos (snap tref))))
         @ drop (length dps - i) lt"
proof (induction n arbitrary: i tref lt s)
  case 0
  then have "\<not> i < length dps" by simp
  with 0 show ?case by (simp add: walk_done)
next
  case (Suc n)
  then have lt: "i < length dps" by simp
  let ?N = "length dps"
  let ?dp = "dps ! (?N - 1 - i)"
  have dr: "drop i (rev dps) = ?dp # drop (Suc i) (rev dps)"
    using lt by (simp add: Cons_nth_drop_Suc [symmetric] rev_nth)
  show ?case
  proof (cases "hashesMatch (Info tref) ?dp")
    case False
    then have "matchedPrefix (infos (snap tref)) (drop i (rev dps)) = 0"
      by (simp add: dr infos_Cons [of "snap tref"] Info_def)
    with False lt show ?thesis by (simp add: walk_mismatch)
  next
    case True
    let ?lt' = "lt[?N - 1 - i := MediaType (Info tref)]"
    have upd: "?lt' = take (?N - 1 - i) lt @ MediaType (Info tref) # drop (?N - i) lt"
      using lt Suc.prems(3) by (simp add: upd_conv_take_nth_drop Suc_diff_Suc)
    show ?thesis
    proof (cases "snapParent (snap tref)")
      case None
      then have "matchedPrefix (infos (snap tref)) (drop i (rev dps)) = 1"
        using True by (simp add: dr infos_Cons [of "snap tref"] Info_def)
      moreover have "take 1 (infos (snap tref)) = [Info tref]"
        by (simp add: infos_Cons [of "snap tref"] Info_def)
      ultimately show ?thesis
        using lt True None upd by (simp add: walk_root)
    next
      case (Some p)
      let ?p = "fst (obtain_handle p s)"
      let ?s = "Release tref (snd (obtain_handle p s))"
      let ?k = "matchedPrefix (infos p) (drop (Suc i) (rev dps))"
      have sp: "snap ?p = p" by (simp add: obtain_handle_def)
      have k: "matchedPrefix (infos (snap tref)) (drop i (rev dps)) = Suc ?k"
        using True Some by (simp add: dr infos_Cons [of "snap tref"] Info_def)
      have tk: "take (Suc ?k) (infos (snap tref)) = Info tref # take ?k (infos p)"
        using Some by (simp add: infos_Cons [of "snap tref"] Info_def)
      have kle: "?k \<le> ?N - Suc i"
        using matchedPrefix_le [of "infos p" "drop (Suc i) (rev dps)"] by simp
      have ih: "fst (walk dps (Suc i) ?p ?lt' ?s)
                  = take (?N - Suc i - ?k) ?lt' @ rev (map MediaType (take ?k (infos p)))
                    @ drop (?N - Suc i) ?lt'"
      proof -
        have n: "length dps - Suc i = n" using Suc.prems(1) by simp
        have il: "Suc i \<le> length dps" using lt by simp
        have len: "length ?lt' = length dps" using Suc.prems(3) by simp
        show ?thesis using Suc.IH [OF n il len, of ?p ?s] by (simp only: sp)
      qed
      have t1: "take (?N - Suc i - ?k) ?lt' = take (?N - i - Suc ?k) lt"
        using kle by simp
      have d1: "drop (?N - Suc i) ?lt' = MediaType (Info tref) # drop (?N - i) lt"
        using lt Suc.prems(3) drop_update_same [of "?N - Suc i" lt "MediaType (Info tref)"]
        by (simp add: Suc_diff_Suc)
      have "fst (walk dps i tref lt s) = fst (walk dps (Suc i) ?p ?lt' ?s)"
        using lt True Some by (simp only: walk_step)
      also have "\<dots> = take (?N - Suc i - ?k) ?lt' @ rev (map MediaType (take ?k (infos p)))
                    @ drop (?N - Suc i) ?lt'"
        by (rule ih)
      also have "\<dots> = take (?N - i - Suc ?k) lt @ rev (map MediaType (take ?k (infos p)))
                    @ MediaType (Info tref) # drop (?N - i) lt"
        by (simp only: t1 d1)
      also have "\<dots> = take (?N - i - Suc ?k) lt
                    @ rev (map MediaType (Info tref # take ?k (infos p))) @ drop (?N - i) lt"
        by simp
      finally show ?thesis by (simp only: k tk)
    qed
  qed
qed

lemma walk_handles:
  "length dps - i = n \<Longrightarrow>
   walk dps i tref lt s = (lt', tref', s') \<Longrightarrow>
     nextHandle s \<le> nextHandle s'
     \<and> acquired s' = acquired s @ [nextHandle s ..< nextHandle s']
     \<and> released s' @ (case tref' of None \<Rightarrow> [] | Some t \<Rightarrow> [handle t])
         = released s @ handle tref # [nextHandle s ..< nextHandle s']"
proof (induction n arbitrary: i tref lt s)
  case 0
  then have "\<not> i < length dps" by simp
  with 0 show ?case by (auto simp add: walk_done)
next
  case (Suc n)
  then have lt: "i < length dps" by simp
  let ?dp = "dps ! (length dps - 1 - i)"
  show ?case
  proof (cases "hashesMatch (Info tref) ?dp")
    case False
    with lt Suc.prems(2) show ?thesis by (auto simp add: walk_mismatch)
  next
    case True
    show ?thesis
    proof (cases "snapParent (snap tref)")
      case None
      with lt True Suc.prems(2) show ?thesis by (auto simp add: walk_root Release_def)
    next
      case (Some p)
      let ?p = "fst (obtain_handle p s)"
      let ?s = "Release tref (snd (obtain_handle p s))"
      have w: "walk dps (Suc i) ?p (lt[length dps - 1 - i := MediaType (Info tref)]) ?s
                 = (lt', tref', s')"
        using lt True Some Suc.prems(2) by (simp add: walk_step)
      have n: "length dps - Suc i = n" using Suc.prems(1) by simp
      note ih = Suc.IH [OF n w]
      have hs: "nextHandle ?s = Suc (nextHandle s)" "acquired ?s = acquired s @ [nextHandle s]"
        "released ?s = released s @ [handle tref]" "handle ?p = nextHandle s"
        by (simp_all add: obtain_handle_def Release_def)
      from ih have le: "Suc (nextHandle s) \<le> nextHandle s'" by (simp add: hs)
      then have up: "[nextHandle s ..< nextHandle s'] = nextHandle s # [Suc (nextHandle s) ..< nextHandle s']"
        by (simp add: upt_conv_Cons)
      from ih le show ?thesis by (simp add: hs up)
    qed
  qed
qed

lemma GetMediaTypeForLayers_layerTypes:
  "fst (GetMediaTypeForLayers dps (Some r) s)
     = replicate (length dps - matchedPrefix (infos (snap r)) (rev dps)) []
       @ rev (map MediaType (take (matchedPrefix (infos (snap r)) (rev dps)) (infos (snap r))))"
proof -
  let ?t = "fst (Clone r s)"
  let ?s1 = "snd (Clone r s)"
  let ?lt = "replicate (length dps) ([] :: string)"
  have sn: "snap ?t = snap r" by (simp add: Clone_def obtain_handle_def)
  have "fst (GetMediaTypeForLayers dps (Some r) s) = fst (walk dps 0 ?t ?lt ?s1)"
    by (simp add: GetMediaTypeForLayers_def Let_def case_prod_beta)
  also have "\<dots> = take (length dps - 0 - matchedPrefix (infos (snap ?t)) (drop 0 (rev dps))) ?lt
         @ rev (map MediaType (take (matchedPrefix (infos (snap ?t)) (drop 0 (rev dps)))
                                  (infos (snap ?t))))
         @ drop (length dps - 0) ?lt"
    by (rule walk_layerTypes [of dps 0 "length dps"]) simp_all
  also have "\<dots> = replicate (length dps - matchedPrefix (infos (snap r)) (rev dps)) []
       @ rev (map MediaType (take (matchedPrefix (infos (snap r)) (rev dps)) (infos (snap r))))"
    by (simp add: sn)
  finally show ?thesis .
qed

lemma GetMediaTypeForLayers_nth:
  assumes "matchedPrefix (infos (snap r)) (rev dps) = k" and "j < length dps"
  shows "fst (GetMediaTypeForLayers dps (Some r) s) ! j
           = (if length dps - k \<le> j then MediaType (infos (snap r) ! (length dps - 1 - j)) else [])"
proof -
  let ?xs = "infos (snap r)"
  have kx: "k \<le> length ?xs" using assms(1) matchedPrefix_le_infos by blast
  have kd: "k \<le> length dps" using assms(1) matchedPrefix_le [of ?xs "rev dps"] by simp
  have res: "fst (GetMediaTypeForLayers dps (Some r) s)
               = replicate (length dps - k) [] @ rev (map MediaType (take k ?xs))"
    using assms(1) by (simp add: GetMediaTypeForLayers_layerTypes)
  show ?thesis
  proof (cases "length dps - k \<le> j")
    case False
    then show ?thesis by (simp add: res nth_append)
  next
    case True
    let ?m = "j - (length dps - k)"
    have m: "?m < k" using True assms(2) kd by arith
    have "fst (GetMediaTypeForLayers dps (Some r) s) ! j = rev (map MediaType (take k ?xs)) ! ?m"
      using True by (simp add: res nth_append)
    also have "\<dots> = map MediaType (take k ?xs) ! (k - Suc ?m)"
      using m kx by (simp add: rev_nth min_absorb2)
    also have "\<dots> = MediaType (?xs ! (k - Suc ?m))"
      using m kx by simp
    also have "k - Suc ?m = length dps - 1 - j"
      using True assms(2) kd by arith
    finally show ?thesis using True by simp
  qed
qed

lemma GetMediaTypeForLayers_length:
  "length (fst (GetMediaTypeForLayers dps (Some r) s)) = length dps"
proof -
  have "matchedPrefix (infos (snap r)) (rev dps) \<le> length (infos (snap r))"
    by (rule matchedPrefix_le_infos)
  moreover have "matchedPrefix (infos (snap r)) (rev dps) \<le> length dps"
    using matchedPrefix_le [of "infos (snap r)" "rev dps"] by simp
  ultimately show ?thesis by (simp add: GetMediaTypeForLayers_layerTypes)
qed

lemma eval_unlabelled:
  "GetMediaTypeForLayers onePair (Some unlabelledRef) exampleState
     = ([[]], \<lparr>nextHandle = 2, acquired = [0, 1], released = [1]\<rparr>)"
  by (simp add: GetMediaTypeForLayers_def onePair_def unlabelledRef_def exampleState_def
      Clone_def obtain_handle_def walk.simps Info_def Parent_def Release_def)

lemma eval_broken:
  "GetMediaTypeForLayers twoPairs (Some brokenParentRef) exampleState
     = ([[], MediaTypeImageLayerGzip], \<lparr>nextHandle = 3, acquired = [0, 1, 2], released = [1, 2]\<rparr>)"
  by (simp add: GetMediaTypeForLayers_def twoPairs_def brokenParentRef_def exampleState_def
      Clone_def obtain_handle_def walk.simps Info_def Parent_def Release_def)

text \<open>
  Claim C9. With a nil head reference \<^verbatim>\<open>GetMediaTypeForLayers\<close> returns one empty string for
  each DiffPair (and touches no handle).
\<close>

theorem GetMediaTypeForLayers_nil_ref:
  "GetMediaTypeForLayers diffPairs None s = (replicate (length diffPairs) [], s)"
  by (simp add: GetMediaTypeForLayers_def)

text \<open>
  Claim C1, amended. When the chain has exactly as many references as there are DiffPairs
  and, at every step of the walk from the child to the root, the DiffID and the blob digest
  of the reference equal the DiffID and the Blobsum of the DiffPair it is held against,
  \<^verbatim>\<open>GetMediaTypeForLayers\<close> returns one string for each DiffPair, and position \<open>j\<close> (in the
  order of the DiffPairs, parent to child) holds the MediaType recorded in the reference
  matched against \<open>diffPairs[j]\<close>. No entry is empty provided every reference of the chain
  records a MediaType that is not empty.
\<close>

theorem GetMediaTypeForLayers_all_match:
  assumes "length (infos (snap r)) = length diffPairs"
    and "\<forall>i<length diffPairs.
           hashesMatch (infos (snap r) ! i) (diffPairs ! (length diffPairs - 1 - i))"
  shows "length (fst (GetMediaTypeForLayers diffPairs (Some r) s)) = length diffPairs
       \<and> (\<forall>j<length diffPairs.
             fst (GetMediaTypeForLayers diffPairs (Some r) s) ! j
               = MediaType (infos (snap r) ! (length diffPairs - 1 - j)))
       \<and> ((\<forall>info\<in>set (infos (snap r)). MediaType info \<noteq> []) \<longrightarrow>
             [] \<notin> set (fst (GetMediaTypeForLayers diffPairs (Some r) s)))"
proof -
  let ?N = "length diffPairs"
  let ?xs = "infos (snap r)"
  let ?res = "fst (GetMediaTypeForLayers diffPairs (Some r) s)"
  have k: "matchedPrefix ?xs (rev diffPairs) = ?N"
  proof (rule matchedPrefix_eq)
    show "?N \<le> length ?xs" using assms(1) by simp
    show "?N \<le> length (rev diffPairs)" by simp
    show "\<forall>i<?N. hashesMatch (?xs ! i) (rev diffPairs ! i)"
      using assms(2) by (simp add: rev_nth)
    show "\<not> hashesMatch (?xs ! ?N) (rev diffPairs ! ?N)" if "?N < length (rev diffPairs)"
      using that by simp
  qed
  have len: "length ?res = ?N" by (rule GetMediaTypeForLayers_length)
  have nth: "\<forall>j<?N. ?res ! j = MediaType (?xs ! (?N - 1 - j))"
    using GetMediaTypeForLayers_nth [OF k, of _ s] by simp
  have ne: "[] \<notin> set ?res" if a: "\<forall>info\<in>set ?xs. MediaType info \<noteq> []"
  proof
    assume "[] \<in> set ?res"
    then obtain j where j: "j < ?N" "?res ! j = []" using len by (auto simp add: in_set_conv_nth)
    with nth have "MediaType (?xs ! (?N - 1 - j)) = []" by simp
    moreover have "?xs ! (?N - 1 - j) \<in> set ?xs" using j(1) assms(1) by simp
    ultimately show False using a by blast
  qed
  from len nth ne show ?thesis by blast
qed

theorem GetMediaTypeForLayers_all_match_witness:
  "length (infos (snap matchingRef)) = length twoPairs
   \<and> fst (GetMediaTypeForLayers twoPairs (Some matchingRef) exampleState) ! 0
       = MediaTypeDockerSchema2Layer
   \<and> fst (GetMediaTypeForLayers twoPairs (Some matchingRef) exampleState) ! 1
       = MediaTypeImageLayerGzip
   \<and> [] \<notin> set (fst (GetMediaTypeForLayers twoPairs (Some matchingRef) exampleState))"
proof -
  have xs: "infos (snap matchingRef)
              = [\<lparr>RefDiffID = ''sha256:d2'', Blob = ''sha256:b2'', MediaType = MediaTypeImageLayerGzip\<rparr>,
                 \<lparr>RefDiffID = ''sha256:d1'', Blob = ''sha256:b1'',
                  MediaType = MediaTypeDockerSchema2Layer\<rparr>]"
    by (simp add: matchingRef_def)
  have h1: "length (infos (snap matchingRef)) = length twoPairs"
    by (simp add: xs twoPairs_def)
  have h2: "\<forall>i<length twoPairs.
              hashesMatch (infos (snap matchingRef) ! i) (twoPairs ! (length twoPairs - 1 - i))"
    by (simp add: xs twoPairs_def hashesMatch_def less_Suc_eq)
  have h3: "\<forall>info\<in>set (infos (snap matchingRef)). MediaType info \<noteq> []"
    by (simp add: xs MediaTypeImageLayerGzip_def MediaTypeDockerSchema2Layer_def)
  have l: "length twoPairs = 2" by (simp add: twoPairs_def)
  from GetMediaTypeForLayers_all_match [OF h1 h2, of exampleState] h3 h1 show ?thesis
    by (simp add: l xs)
qed

text \<open>
  A reference whose hashes match and whose recorded MediaType is the empty string: the
  entry returned for it is empty.
\<close>

theorem GetMediaTypeForLayers_all_match_counterexample:
  "length (infos (snap unlabelledRef)) = length onePair
   \<and> hashesMatch (infos (snap unlabelledRef) ! 0) (onePair ! (length onePair - 1 - 0))
   \<and> fst (GetMediaTypeForLayers onePair (Some unlabelledRef) exampleState) = [[]]"
  by (simp add: eval_unlabelled) (simp add: unlabelledRef_def onePair_def hashesMatch_def)

text \<open>
  Claim C2, amended. When the first reference whose DiffID or blob digest differs from its
  DiffPair is at position \<open>k\<close> of the chain, counted from the child (position 0), the \<open>k\<close>
  positions on the child side of it, the last \<open>k\<close> of the result, hold the MediaTypes
  recorded in the references matched before the break, and the position of \<open>k\<close> and every
  position on the parent side of it, the first \<open>N - k\<close> of the result, are the empty string.
\<close>

theorem GetMediaTypeForLayers_first_mismatch:
  assumes "k < length diffPairs" and "k < length (infos (snap r))"
    and "\<forall>i<k. hashesMatch (infos (snap r) ! i) (diffPairs ! (length diffPairs - 1 - i))"
    and "\<not> hashesMatch (infos (snap r) ! k) (diffPairs ! (length diffPairs - 1 - k))"
  shows "length (fst (GetMediaTypeForLayers diffPairs (Some r) s)) = length diffPairs
       \<and> (\<forall>j<length diffPairs.
             fst (GetMediaTypeForLayers diffPairs (Some r) s) ! j
               = (if length diffPairs - k \<le> j
                  then MediaType (infos (snap r) ! (length diffPairs - 1 - j)) else []))"
proof -
  let ?N = "length diffPairs"
  let ?xs = "infos (snap r)"
  have m: "matchedPrefix ?xs (rev diffPairs) = k"
  proof (rule matchedPrefix_eq)
    show "k \<le> length ?xs" using assms(2) by simp
    show "k \<le> length (rev diffPairs)" using assms(1) by simp
    show "\<forall>i<k. hashesMatch (?xs ! i) (rev diffPairs ! i)"
      using assms(1,3) by (simp add: rev_nth)
    show "\<not> hashesMatch (?xs ! k) (rev diffPairs ! k)"
      using assms(1,4) by (simp add: rev_nth)
  qed
  show ?thesis
    using GetMediaTypeForLayers_nth [OF m, of _ s] GetMediaTypeForLayers_length [of diffPairs r s]
    by simp
qed

theorem GetMediaTypeForLayers_first_mismatch_witness:
  "fst (GetMediaTypeForLayers twoPairs (Some brokenParentRef) exampleState) ! 0 = []
   \<and> fst (GetMediaTypeForLayers twoPairs (Some brokenParentRef) exampleState) ! 1
       = MediaTypeImageLayerGzip"
proof -
  have xs: "infos (snap brokenParentRef)
              = [\<lparr>RefDiffID = ''sha256:d2'', Blob = ''sha256:b2'', MediaType = MediaTypeImageLayerGzip\<rparr>,
                 \<lparr>RefDiffID = ''sha256:d1'', Blob = ''sha256:ff'',
                  MediaType = MediaTypeDockerSchema2Layer\<rparr>]"
    by (simp add: brokenParentRef_def)
  have l: "length twoPairs = 2" by (simp add: twoPairs_def)
  have h1: "1 < length twoPairs" by (simp add: l)
  have h2: "1 < length (infos (snap brokenParentRef))" by (simp add: xs)
  have h3: "\<forall>i<1. hashesMatch (infos (snap brokenParentRef) ! i)
                      (twoPairs ! (length twoPairs - 1 - i))"
    by (simp add: xs twoPairs_def hashesMatch_def)
  have h4: "\<not> hashesMatch (infos (snap brokenParentRef) ! 1)
                (twoPairs ! (length twoPairs - 1 - 1))"
    by (simp add: xs twoPairs_def hashesMatch_def)
  from GetMediaTypeForLayers_first_mismatch [OF h1 h2 h3 h4, of exampleState] show ?thesis
    by (simp add: l xs)
qed

text \<open>
  Two DiffPairs and a first mismatch at chain position 1: \<open>N - 1 - k\<close> is 0, and yet one
  entry, the one of the child, is filled.
\<close>

theorem GetMediaTypeForLayers_first_mismatch_counterexample:
  "hashesMatch (infos (snap brokenParentRef) ! 0) (twoPairs ! (length twoPairs - 1 - 0))
   \<and> \<not> hashesMatch (infos (snap brokenParentRef) ! 1) (twoPairs ! (length twoPairs - 1 - 1))
   \<and> fst (GetMediaTypeForLayers twoPairs (Some brokenParentRef) exampleState)
       = [[], MediaTypeImageLayerGzip]
   \<and> nonEmptyEntries (fst (GetMediaTypeForLayers twoPairs (Some brokenParentRef) exampleState)) = 1
   \<and> length twoPairs - 1 - 1 = 0"
  by (simp add: eval_broken)
    (simp add: brokenParentRef_def twoPairs_def hashesMatch_def nonEmptyEntries_def
      MediaTypeImageLayerGzip_def)

text \<open>
  Claim C3. For a head reference that is not nil, whatever the DiffPairs and however the
  walk ends (all DiffPairs visited, root of the chain reached, or a hash mismatch), the
  handles obtained by \<^verbatim>\<open>Clone\<close> and \<^verbatim>\<open>Parent\<close> during the call, of which there is at least
  one and no two are the same, are exactly the handles released during the call, each of
  them once; the handle held when the walk stops is among them.
\<close>

theorem GetMediaTypeForLayers_releases_handles:
  "acquired (snd (GetMediaTypeForLayers diffPairs (Some r) s))
     = acquired s @ obtainedDuring s (snd (GetMediaTypeForLayers diffPairs (Some r) s))
   \<and> released (snd (GetMediaTypeForLayers diffPairs (Some r) s))
     = released s @ releasedDuring s (snd (GetMediaTypeForLayers diffPairs (Some r) s))
   \<and> obtainedDuring s (snd (GetMediaTypeForLayers diffPairs (Some r) s)) \<noteq> []
   \<and> distinct (obtainedDuring s (snd (GetMediaTypeForLayers diffPairs (Some r) s)))
   \<and> releasedDuring s (snd (GetMediaTypeForLayers diffPairs (Some r) s))
     = obtainedDuring s (snd (GetMediaTypeForLayers diffPairs (Some r) s))"
proof -
  let ?t = "fst (Clone r s)"
  let ?s1 = "snd (Clone r s)"
  let ?lt = "replicate (length diffPairs) ([] :: string)"
  obtain lt' tref' s2 where w: "walk diffPairs 0 ?t ?lt ?s1 = (lt', tref', s2)"
    by (cases "walk diffPairs 0 ?t ?lt ?s1")
  let ?s' = "case tref' of None \<Rightarrow> s2 | Some t \<Rightarrow> Release t s2"
  have res: "snd (GetMediaTypeForLayers diffPairs (Some r) s) = ?s'"
    using w by (simp add: GetMediaTypeForLayers_def Let_def case_prod_beta cong: option.case_cong)
  have c: "nextHandle ?s1 = Suc (nextHandle s)" "acquired ?s1 = acquired s @ [nextHandle s]"
    "released ?s1 = released s" "handle ?t = nextHandle s"
    by (simp_all add: Clone_def obtain_handle_def)
  from walk_handles [OF refl w]
  have h: "Suc (nextHandle s) \<le> nextHandle s2"
    "acquired s2 = acquired s @ [nextHandle s] @ [Suc (nextHandle s) ..< nextHandle s2]"
    "released s2 @ (case tref' of None \<Rightarrow> [] | Some t \<Rightarrow> [handle t])
       = released s @ nextHandle s # [Suc (nextHandle s) ..< nextHandle s2]"
    by (simp_all add: c)
  have up: "[nextHandle s ..< nextHandle s2] = nextHandle s # [Suc (nextHandle s) ..< nextHandle s2]"
    using h(1) by (simp add: upt_conv_Cons)
  have a: "acquired ?s' = acquired s @ [nextHandle s ..< nextHandle s2]"
    using h(2) up by (cases tref') (simp_all add: Release_def)
  have b: "released ?s' = released s @ [nextHandle s ..< nextHandle s2]"
    using h(3) up by (cases tref') (simp_all add: Release_def)
  have ne: "[nextHandle s ..< nextHandle s2] \<noteq> []" using h(1) by simp
  show ?thesis
    unfolding res obtainedDuring_def releasedDuring_def using a b ne by simp
qed

end
